theory Spec2Isabelle
  imports Main
begin

section \<open>Goal scroller overlay: data model\<close>

text \<open>
  The overlay script \<^verbatim>\<open>overlay/everylunaever/bunathon2025/goal_scroller/scripts.mjs\<close>
  keeps one mutable \<^verbatim>\<open>model\<close> object and a read-only \<^verbatim>\<open>config\<close>. Both are
  passed explicitly here; every function that mutates \<^verbatim>\<open>model\<close> returns the new
  model.

  A JavaScript number is either \<^verbatim>\<open>NaN\<close> or a value of a linearly ordered set
  (the finite doubles and the two infinities). The scroller compares point values with
  \<^verbatim>\<open><=\<close> and does nothing else with them, so the carrier is left as any linear
  order \<open>'a\<close>; a comparison with \<^verbatim>\<open>NaN\<close> on either side is false, as in
  the language. Done indices are array indices and are kept as \<open>int\<close>.
\<close>

datatype 'a number = NaN | Num 'a

fun js_le :: "'a::linorder number \<Rightarrow> 'a number \<Rightarrow> bool" where
  "js_le (Num a) (Num b) = (a \<le> b)"
| "js_le _ _ = False"

fun js_lt :: "'a::linorder number \<Rightarrow> 'a number \<Rightarrow> bool" where
  "js_lt (Num a) (Num b) = (a < b)"
| "js_lt _ _ = False"

text \<open>The operator \<^verbatim>\<open>v ?? d\<close>: \<open>d\<close> when \<open>v\<close> is null, else \<open>v\<close>.\<close>

definition nullish :: "'v option \<Rightarrow> 'v \<Rightarrow> 'v" where
  "nullish v d = (case v of None \<Rightarrow> d | Some x \<Rightarrow> x)"

datatype GoalState = Active | Completed | Upcoming

datatype GoalAnimation = Up | Down | Clear | NoBoxShadow

text \<open>The seven string literals of the \<^verbatim>\<open>type\<close> field of \<^verbatim>\<open>ScrollerAnimation\<close>.\<close>

datatype AnimationType =
    Static
  | UpwardsBegin | UpwardsMoving | UpwardsEnd
  | DownwardsBegin | DownwardsMoving | DownwardsEnd

text \<open>
  What \<^verbatim>\<open>determineGoalInfo\<close> returns for a visible goal; the optional
  \<^verbatim>\<open>animation\<close> is \<open>None\<close> when the property is \<^verbatim>\<open>undefined\<close>.
\<close>

record GoalInfo =
  state :: GoalState
  position :: int
  animation :: "GoalAnimation option"

text \<open>
  \<^verbatim>\<open>activeTimeout\<close> holds the handle that \<^verbatim>\<open>setTimeout\<close> returned (a positive
  integer, hence truthy) or \<^verbatim>\<open>undefined\<close>. The code only tests its truthiness, so
  the field is the flag "a timer is armed".
\<close>

record ScrollerAnimation =
  type :: AnimationType
  doneIndex :: "int option"
  activeTimeout :: bool

record 'a GoalConfig =
  points :: "'a number"
  goal_text :: string
  subtext :: "string option"

record EncryptedText =
  iv :: string
  data :: string

record 'a Config =
  goals :: "'a GoalConfig list"
  encryptedBucketUrl :: EncryptedText

text \<open>A \<^verbatim>\<open>Goal\<close> of the model; its DOM element is outside the model.\<close>

record 'a Goal =
  config :: "'a GoalConfig"

text \<open>\<^verbatim>\<open>totalPoints\<close> is \<open>None\<close> when it is \<^verbatim>\<open>null\<close> (a failed fetch).\<close>

record 'a UIModel =
  totalPoints :: "'a number option"
  goals :: "'a Goal list"
  animation :: ScrollerAnimation

section \<open>The done index\<close>

text \<open>
  \<^verbatim>\<open>Array.prototype.findLastIndex\<close>: the index \<open>k\<close> runs from \<open>length - 1\<close> down to
  \<open>0\<close>, the first element that satisfies the predicate gives the result, and \<open>-1\<close>
  is returned when none does. \<open>findLastIndex_from P xs k\<close> is the loop with
  the indices below \<open>k\<close> still to visit.
\<close>

fun findLastIndex_from :: "('e \<Rightarrow> bool) \<Rightarrow> 'e list \<Rightarrow> nat \<Rightarrow> int" where
  "findLastIndex_from P xs 0 = - 1"
| "findLastIndex_from P xs (Suc k) =
     (if P (xs ! k) then int k else findLastIndex_from P xs k)"

definition findLastIndex :: "('e \<Rightarrow> bool) \<Rightarrow> 'e list \<Rightarrow> int" where
  "findLastIndex P xs = findLastIndex_from P xs (length xs)"

definition calculateDoneIndex :: "'a::linorder Config \<Rightarrow> 'a number \<Rightarrow> int option" where
  "calculateDoneIndex cfg pts =
     (let index = findLastIndex (\<lambda>x. js_le (points x) pts) (Config.goals cfg)
      in if index < 0 then None else Some index)"

definition loadGoalsFromConfig :: "'a Config \<Rightarrow> 'a Goal list" where
  "loadGoalsFromConfig cfg = map (\<lambda>goalConfig. \<lparr>config = goalConfig\<rparr>) (Config.goals cfg)"

definition initializeAnimation :: "'a::linorder Config \<Rightarrow> 'a number \<Rightarrow> ScrollerAnimation" where
  "initializeAnimation cfg initialPoints =
     \<lparr>type = Static, doneIndex = calculateDoneIndex cfg initialPoints, activeTimeout = False\<rparr>"

text \<open>
  The catalog's thresholds are strictly increasing: every earlier goal has fewer points
  than every later one.
\<close>

definition strictlyAscending :: "'a::linorder GoalConfig list \<Rightarrow> bool" where
  "strictlyAscending gs = sorted_wrt (\<lambda>x y. js_lt (points x) (points y)) gs"

text \<open>
  A configuration whose goals have the given thresholds, in the given order (the label,
  the subtext and the encrypted bucket URL play no part in the scroller).
\<close>

definition catalogOf :: "'a list \<Rightarrow> 'a Config" where
  "catalogOf ps =
     \<lparr>Config.goals = map (\<lambda>p. \<lparr>points = Num p, goal_text = [], subtext = None\<rparr>) ps,
      encryptedBucketUrl = \<lparr>iv = [], data = []\<rparr>\<rparr>"

text \<open>The order on done indices with \<^verbatim>\<open>null\<close> below every index.\<close>

definition doneIndex_le :: "int option \<Rightarrow> int option \<Rightarrow> bool" where
  "doneIndex_le a b =
     (case a of None \<Rightarrow> True | Some x \<Rightarrow> (case b of None \<Rightarrow> False | Some y \<Rightarrow> x \<le> y))"

section \<open>The scroller state machine\<close>

definition setTotalPoints :: "'a number option \<Rightarrow> 'a UIModel \<Rightarrow> 'a UIModel" where
  "setTotalPoints tp model = model\<lparr>totalPoints := tp\<rparr>"

text \<open>
  The model with which the \<^verbatim>\<open>ui\<close> closure starts. The source passes the constant
  \<open>0\<close> for \<open>initialTotalPoints\<close>; it is a parameter here.
\<close>

definition initialModel :: "'a::linorder Config \<Rightarrow> 'a number \<Rightarrow> 'a UIModel" where
  "initialModel cfg initialTotalPoints =
     \<lparr>totalPoints = Some initialTotalPoints,
      goals = loadGoalsFromConfig cfg,
      animation = initializeAnimation cfg initialTotalPoints\<rparr>"

text \<open>
  The local functions of \<^verbatim>\<open>updateScrollerAnimation\<close>. \<open>setAnimation\<close> stores a
  fresh animation object (which has no \<^verbatim>\<open>activeTimeout\<close>) in the model;
  \<open>startAnimation\<close> chooses the direction from the current and the target done index.
\<close>

definition setAnimation :: "ScrollerAnimation \<Rightarrow> 'a UIModel \<Rightarrow> 'a UIModel" where
  "setAnimation updated model = model\<lparr>animation := updated\<rparr>"

definition startAnimation :: "int option \<Rightarrow> int option \<Rightarrow> ScrollerAnimation" where
  "startAnimation currentDoneIndex targetDoneIndex =
     (if nullish currentDoneIndex (- 1) > nullish targetDoneIndex (- 1)
      then \<lparr>type = DownwardsBegin, doneIndex = currentDoneIndex, activeTimeout = False\<rparr>
      else \<lparr>type = UpwardsBegin, doneIndex = Some (nullish currentDoneIndex (- 1) + 1),
            activeTimeout = False\<rparr>)"

text \<open>
  The last statement of \<^verbatim>\<open>updateScrollerAnimation\<close>,
  \<^verbatim>\<open>animation.activeTimeout = setTimeout(...)\<close>, on the animation object that is in
  the model at that point.
\<close>

definition armTimeout :: "'a UIModel \<Rightarrow> 'a UIModel" where
  "armTimeout model = model\<lparr>animation := (animation model)\<lparr>activeTimeout := True\<rparr>\<rparr>"

definition updateScrollerAnimation :: "'a::linorder Config \<Rightarrow> 'a UIModel \<Rightarrow> 'a UIModel" where
  "updateScrollerAnimation cfg model =
     (if activeTimeout (animation model) then model
      else case totalPoints model of
        None \<Rightarrow> model
      | Some tp \<Rightarrow>
          (let currentDoneIndex = doneIndex (animation model);
               targetDoneIndex = calculateDoneIndex cfg tp
           in case type (animation model) of
                Static \<Rightarrow>
                  if currentDoneIndex = targetDoneIndex then model
                  else armTimeout
                         (setAnimation (startAnimation currentDoneIndex targetDoneIndex) model)
              | UpwardsEnd \<Rightarrow>
                  (let model' = setAnimation
                         \<lparr>type = Static, doneIndex = doneIndex (animation model),
                          activeTimeout = False\<rparr> model
                   in if currentDoneIndex = targetDoneIndex then model' else armTimeout model')
              | DownwardsEnd \<Rightarrow>
                  (let model' = setAnimation
                         \<lparr>type = Static, doneIndex = doneIndex (animation model),
                          activeTimeout = False\<rparr> model
                   in if currentDoneIndex = targetDoneIndex then model' else armTimeout model')
              | UpwardsBegin \<Rightarrow>
                  armTimeout (setAnimation
                    \<lparr>type = UpwardsMoving, doneIndex = doneIndex (animation model),
                     activeTimeout = False\<rparr> model)
              | UpwardsMoving \<Rightarrow>
                  armTimeout (setAnimation
                    \<lparr>type = UpwardsEnd, doneIndex = doneIndex (animation model),
                     activeTimeout = False\<rparr> model)
              | DownwardsBegin \<Rightarrow>
                  armTimeout (setAnimation
                    \<lparr>type = DownwardsMoving, doneIndex = doneIndex (animation model),
                     activeTimeout = False\<rparr> model)
              | DownwardsMoving \<Rightarrow>
                  armTimeout (setAnimation
                    \<lparr>type = DownwardsEnd,
                     doneIndex = (case doneIndex (animation model) of
                                    None \<Rightarrow> None
                                  | Some d \<Rightarrow> if d = 0 then None else Some (d - 1)),
                     activeTimeout = False\<rparr> model)))"

text \<open>
  What \<^verbatim>\<open>renderGoals\<close> and \<^verbatim>\<open>render\<close> do to the model: they call
  \<open>updateScrollerAnimation\<close>; everything else they do is written to the DOM.
\<close>

definition renderGoals :: "'a::linorder Config \<Rightarrow> 'a UIModel \<Rightarrow> 'a UIModel" where
  "renderGoals cfg model = updateScrollerAnimation cfg model"

definition render :: "'a::linorder Config \<Rightarrow> 'a UIModel \<Rightarrow> 'a UIModel" where
  "render cfg model = renderGoals cfg model"

text \<open>
  The callback given to \<^verbatim>\<open>setTimeout\<close>: it clears \<^verbatim>\<open>activeTimeout\<close> of the
  animation object (the one in the model, since no call replaces it while the timer is
  armed) and renders.
\<close>

definition expireTimeout :: "'a UIModel \<Rightarrow> 'a UIModel" where
  "expireTimeout model = model\<lparr>animation := (animation model)\<lparr>activeTimeout := False\<rparr>\<rparr>"

definition timeoutCallback :: "'a::linorder Config \<Rightarrow> 'a UIModel \<Rightarrow> 'a UIModel" where
  "timeoutCallback cfg model = renderGoals cfg (expireTimeout model)"

text \<open>
  \<^verbatim>\<open>fetchAndUpdate\<close> of \<^verbatim>\<open>main\<close>, given what the fetch returned (\<open>None\<close> for
  \<^verbatim>\<open>null\<close>).
\<close>

definition fetchAndUpdate :: "'a::linorder Config \<Rightarrow> 'a number option \<Rightarrow> 'a UIModel \<Rightarrow> 'a UIModel" where
  "fetchAndUpdate cfg fetched model = render cfg (setTotalPoints fetched model)"

text \<open>The phase of a model: the tag and the done index of its animation.\<close>

definition phase :: "'a UIModel \<Rightarrow> AnimationType \<times> int option" where
  "phase model = (type (animation model), doneIndex (animation model))"

text \<open>
  The phases seen after each of \<open>n\<close> successive calls of \<open>updateScrollerAnimation\<close>,
  every call made once the timer armed by the previous one (if any) has expired.
\<close>

fun phasesAfterCalls :: "'a::linorder Config \<Rightarrow> nat \<Rightarrow> 'a UIModel \<Rightarrow> (AnimationType \<times> int option) list" where
  "phasesAfterCalls cfg 0 model = []"
| "phasesAfterCalls cfg (Suc n) model =
     phase (updateScrollerAnimation cfg (expireTimeout model))
       # phasesAfterCalls cfg n (updateScrollerAnimation cfg (expireTimeout model))"

text \<open>
  The models the page can be in: the initial one, and what a change of the total, a call
  of \<open>updateScrollerAnimation\<close> and the expiry of an armed timer make of a reachable
  one.
\<close>

inductive reachable :: "'a::linorder Config \<Rightarrow> 'a number \<Rightarrow> 'a UIModel \<Rightarrow> bool"
  for cfg :: "'a Config" and initialPoints :: "'a number" where
  reachable_init: "reachable cfg initialPoints (initialModel cfg initialPoints)"
| reachable_total: "reachable cfg initialPoints model \<Longrightarrow>
     reachable cfg initialPoints (setTotalPoints tp model)"
| reachable_update: "reachable cfg initialPoints model \<Longrightarrow>
     reachable cfg initialPoints (updateScrollerAnimation cfg model)"
| reachable_expire: "reachable cfg initialPoints model \<Longrightarrow> activeTimeout (animation model) \<Longrightarrow>
     reachable cfg initialPoints (expireTimeout model)"

section \<open>The slot projector\<close>

text \<open>
  The pair that the local \<^verbatim>\<open>elementAnimation\<close> of \<^verbatim>\<open>determineGoalInfo\<close> holds:
  the tag of the covered (edge) slot and the tag of the other slots.
\<close>

record ElementAnimation =
  covered :: "GoalAnimation option"
  others :: "GoalAnimation option"

text \<open>
  The truthiness of a done index: \<^verbatim>\<open>null\<close> and \<open>0\<close> are falsy. And the expression
  \<^verbatim>\<open>levels?.[i] ?? fallback\<close>: the fallback when \<open>levels\<close> is undefined or has no
  element at \<open>i\<close>.
\<close>

definition truthy :: "int option \<Rightarrow> bool" where
  "truthy d = (case d of None \<Rightarrow> False | Some n \<Rightarrow> n \<noteq> 0)"

definition levelOr :: "GoalState list option \<Rightarrow> int \<Rightarrow> GoalState \<Rightarrow> GoalState" where
  "levelOr levels i fallback =
     (case levels of
        None \<Rightarrow> fallback
      | Some l \<Rightarrow> if 0 \<le> i \<and> i < int (length l) then l ! nat i else fallback)"

text \<open>The locals of \<^verbatim>\<open>determineGoalInfo\<close>, each as a function of what it reads.\<close>

definition remainingOf :: "'a UIModel \<Rightarrow> int" where
  "remainingOf model = int (length (goals model)) - nullish (doneIndex (animation model)) 0"

definition levelsOf :: "'a UIModel \<Rightarrow> GoalState list option" where
  "levelsOf model =
     (let scrollAnimation = animation model; remaining = remainingOf model
      in if remaining = 1 then Some [Completed, Completed, Completed, Completed]
         else if remaining = 2 then Some [Completed, Completed, Completed, Active]
         else if remaining = 3 then Some [Completed, Completed, Active, Upcoming]
         else if doneIndex scrollAnimation = None \<and> type scrollAnimation = DownwardsEnd
         then Some [Active, Active, Upcoming, Upcoming]
         else None)"

definition elementAnimationOf :: "'a UIModel \<Rightarrow> ElementAnimation" where
  "elementAnimationOf model =
     (let scrollAnimation = animation model; remaining = remainingOf model
      in case type scrollAnimation of
           Static \<Rightarrow> \<lparr>covered = None, others = Some Clear\<rparr>
         | UpwardsBegin \<Rightarrow> \<lparr>covered = None, others = None\<rparr>
         | UpwardsMoving \<Rightarrow>
             \<lparr>covered = None,
              others = (if doneIndex scrollAnimation = Some 0 \<or> remaining \<le> 2 then None else Some Up)\<rparr>
         | UpwardsEnd \<Rightarrow>
             \<lparr>covered = Some NoBoxShadow,
              others = (if doneIndex scrollAnimation = Some 0 \<or> remaining \<le> 2 then None else Some Up)\<rparr>
         | DownwardsBegin \<Rightarrow>
             \<lparr>covered = Some NoBoxShadow,
              others = (if truthy (doneIndex scrollAnimation) \<and> remaining > 2 then Some Down else None)\<rparr>
         | DownwardsMoving \<Rightarrow>
             \<lparr>covered = None,
              others = (if truthy (doneIndex scrollAnimation) \<and> remaining > 2 then Some Down else None)\<rparr>
         | DownwardsEnd \<Rightarrow>
             \<lparr>covered = Some NoBoxShadow,
              others = (if truthy (doneIndex scrollAnimation) \<and> remaining > 2 then Some Clear else None)\<rparr>)"

definition pickerOf :: "'a UIModel \<Rightarrow> int \<Rightarrow> int" where
  "pickerOf model index =
     (let pos = index - nullish (doneIndex (animation model)) 0; remaining = remainingOf model
      in pos + (if remaining \<le> 3 then 3 - remaining else 0))"

definition positionOffsetOf :: "'a UIModel \<Rightarrow> int" where
  "positionOffsetOf model =
     (if nullish (doneIndex (animation model)) (- 1) \<ge> 1 \<and> remainingOf model \<ge> 3 then 1 else 0)"

text \<open>
  \<^verbatim>\<open>determineGoalInfo(index, goal)\<close>; \<open>None\<close> is \<^verbatim>\<open>undefined\<close>, the goal is not
  shown. The \<^verbatim>\<open>default\<close> branches that throw \<^verbatim>\<open>unreachable\<close> have no
  counterpart: \<open>AnimationType\<close> has the seven tags only.
\<close>

definition determineGoalInfo :: "'a UIModel \<Rightarrow> int \<Rightarrow> 'a Goal \<Rightarrow> GoalInfo option" where
  "determineGoalInfo model index goal =
     (let scrollAnimation = animation model;
          pos = index - nullish (doneIndex scrollAnimation) 0
      in if pos < - 2 then None
         else
           (let remaining = remainingOf model;
                levels = levelsOf model;
                elementAnimation = elementAnimationOf model;
                picker = pickerOf model index;
                positionOffset = positionOffsetOf model
            in case type scrollAnimation of
                 Static \<Rightarrow>
                   if doneIndex scrollAnimation = None then
                     (if picker = 0 then
                        Some \<lparr>state = levelOr levels (picker + 1) Active, position = picker,
                              animation = others elementAnimation\<rparr>
                      else if picker = 1 then
                        Some \<lparr>state = levelOr levels (picker + 1) Upcoming, position = picker,
                              animation = others elementAnimation\<rparr>
                      else if picker = 2 then
                        Some \<lparr>state = levelOr levels (picker + 1) Upcoming, position = picker,
                              animation = others elementAnimation\<rparr>
                      else None)
                   else
                     (if picker = 0 then
                        Some \<lparr>state = levelOr levels (picker + 1) Completed, position = picker,
                              animation = others elementAnimation\<rparr>
                      else if picker = 1 then
                        Some \<lparr>state = levelOr levels (picker + 1) Active, position = picker,
                              animation = others elementAnimation\<rparr>
                      else if picker = 2 then
                        Some \<lparr>state = levelOr levels (picker + 1) Upcoming, position = picker,
                              animation = others elementAnimation\<rparr>
                      else None)
               | _ \<Rightarrow>
                   (if picker = - 1 then
                      (if remaining \<le> 2 then None
                       else Some \<lparr>state = levelOr levels (picker + 1) Completed,
                                  position = picker + positionOffset,
                                  animation = covered elementAnimation\<rparr>)
                    else if picker = 0 then
                      Some \<lparr>state = levelOr levels (picker + 1) Completed,
                            position = picker + positionOffset,
                            animation = others elementAnimation\<rparr>
                    else if picker = 1 then
                      Some \<lparr>state = levelOr levels (picker + 1) Active,
                            position = picker + positionOffset,
                            animation = others elementAnimation\<rparr>
                    else if picker = 2 then
                      Some \<lparr>state = levelOr levels (picker + 1) Upcoming,
                            position = picker + positionOffset,
                            animation = others elementAnimation\<rparr>
                    else None)))"

section \<open>Start-up: the key and the state loader\<close>

text \<open>
  \<^verbatim>\<open>tryLoadKeyFromSearch\<close>. \<open>base64\<close> is what
  \<^verbatim>\<open>new URLSearchParams(location.search).get('key')\<close> returned: \<open>None\<close> for
  \<^verbatim>\<open>null\<close> (no such parameter). \<open>importKey\<close> stands for \<^verbatim>\<open>crypto.importKey\<close>
  (base64 decoding and WebCrypto), which gives a key or throws; what it throws is caught
  and the result is then \<^verbatim>\<open>undefined\<close>.
\<close>

definition tryLoadKeyFromSearch :: "(string \<Rightarrow> 'e + 'k) \<Rightarrow> string option \<Rightarrow> 'k option" where
  "tryLoadKeyFromSearch importKey base64 =
     (case base64 of
        None \<Rightarrow> None
      | Some b \<Rightarrow>
          if b = [] \<or> length b < 43 \<or> length b > 44 then None
          else (case importKey b of Inl err \<Rightarrow> None | Inr key \<Rightarrow> Some key))"

text \<open>
  \<^verbatim>\<open>createStateLoader\<close>. The function it returns is determined by the decrypted
  bucket URL, so the result is that URL, \<open>Inr None\<close> when it returns \<^verbatim>\<open>undefined\<close>,
  and \<open>Inl\<close> what \<^verbatim>\<open>crypto.decrypt\<close> threw (nothing catches it).
\<close>

definition createStateLoader ::
  "(string \<Rightarrow> 'e + 'k) \<Rightarrow> (EncryptedText \<Rightarrow> 'k \<Rightarrow> 'e + string) \<Rightarrow> 'a Config \<Rightarrow> string option
     \<Rightarrow> 'e + string option" where
  "createStateLoader importKey decrypt cfg base64 =
     (case tryLoadKeyFromSearch importKey base64 of
        None \<Rightarrow> Inr None
      | Some key \<Rightarrow>
          (case decrypt (encryptedBucketUrl cfg) key of
             Inl err \<Rightarrow> Inl err
           | Inr url \<Rightarrow> Inr (Some url)))"

text \<open>
  What \<^verbatim>\<open>main\<close> leaves behind: the text of \<^verbatim>\<open>counterValue\<close>, the URLs it has
  fetched the total from, and the interval it installed (the URL polled and the period in
  milliseconds), if any.
\<close>

record MainResult =
  counterValue_innerText :: string
  fetched :: "string list"
  pollInterval :: "(string \<times> nat) option"

text \<open>
  \<^verbatim>\<open>main\<close>. \<open>counterText url\<close> stands for the text that the first
  \<^verbatim>\<open>fetchAndUpdate\<close> renders into \<^verbatim>\<open>counterValue\<close> (it depends on the response
  and on the locale).
\<close>

definition main ::
  "(string \<Rightarrow> 'e + 'k) \<Rightarrow> (EncryptedText \<Rightarrow> 'k \<Rightarrow> 'e + string) \<Rightarrow> (string \<Rightarrow> string) \<Rightarrow> bool
     \<Rightarrow> 'a Config \<Rightarrow> string option \<Rightarrow> 'e + MainResult" where
  "main importKey decrypt counterText isDevelopment cfg base64 =
     (case createStateLoader importKey decrypt cfg base64 of
        Inl err \<Rightarrow> Inl err
      | Inr None \<Rightarrow>
          Inr \<lparr>counterValue_innerText = ''Invalid key'', fetched = [], pollInterval = None\<rparr>
      | Inr (Some url) \<Rightarrow>
          (let fetchUrl = (if isDevelopment then ''./debug-points.json'' else url)
           in Inr \<lparr>counterValue_innerText = counterText fetchUrl,
                   fetched = [fetchUrl],
                   pollInterval = Some (fetchUrl, if isDevelopment then 1000 else 15000)\<rparr>))"

text \<open>A done index is in range: null, or an index of the catalog.\<close>

definition doneIndex_ok :: "'a Config \<Rightarrow> ScrollerAnimation \<Rightarrow> bool" where
  "doneIndex_ok cfg a =
     (case doneIndex a of None \<Rightarrow> True | Some d \<Rightarrow> 0 \<le> d \<and> d < int (length (Config.goals cfg)))"

section \<open>Properties of the done index\<close>

lemma findLastIndex_from_bounds:
  "- 1 \<le> findLastIndex_from P xs k \<and> findLastIndex_from P xs k < int k"
  by (induction k) auto

lemma findLastIndex_from_none:
  "findLastIndex_from P xs k < 0 \<longleftrightarrow> (\<forall>i<k. \<not> P (xs ! i))"
  by (induction k) (auto simp: less_Suc_eq)

lemma findLastIndex_from_holds:
  "0 \<le> findLastIndex_from P xs k \<Longrightarrow> P (xs ! nat (findLastIndex_from P xs k))"
  by (induction k) (auto split: if_splits)

lemma findLastIndex_from_greatest:
  "i < k \<Longrightarrow> P (xs ! i) \<Longrightarrow> int i \<le> findLastIndex_from P xs k"
proof (induction k)
  case 0
  then show ?case by simp
next
  case (Suc k)
  show ?case
  proof (cases "P (xs ! k)")
    case True
    with Suc.prems show ?thesis by simp
  next
    case False
    with Suc.prems have "i < k" by (cases "i = k") auto
    with Suc False show ?thesis by simp
  qed
qed

lemma findLastIndex_from_mono:
  assumes "\<And>x. P x \<Longrightarrow> Q x"
  shows "findLastIndex_from P xs k \<le> findLastIndex_from Q xs k"
proof (cases "0 \<le> findLastIndex_from P xs k")
  case True
  let ?r = "findLastIndex_from P xs k"
  from True have "P (xs ! nat ?r)" by (rule findLastIndex_from_holds)
  then have q: "Q (xs ! nat ?r)" by (rule assms)
  from True findLastIndex_from_bounds [of P xs k] have "nat ?r < k" by simp
  from findLastIndex_from_greatest [of "nat ?r" k Q xs, OF this q] True show ?thesis by simp
next
  case False
  with findLastIndex_from_bounds [of P xs k] findLastIndex_from_bounds [of Q xs k]
  show ?thesis by simp
qed

lemma js_le_trans: "js_le a b \<Longrightarrow> js_le b c \<Longrightarrow> js_le a c"
  by (cases a; cases b; cases c) auto

lemma calculateDoneIndex_range:
  "calculateDoneIndex cfg p = Some d \<Longrightarrow> 0 \<le> d \<and> d < int (length (Config.goals cfg))"
  using findLastIndex_from_bounds [of "\<lambda>x. js_le (points x) p" "Config.goals cfg" "length (Config.goals cfg)"]
  by (auto simp: calculateDoneIndex_def findLastIndex_def Let_def split: if_splits)

text \<open>
  Claim C2. For a catalog sorted strictly ascending by points and any number
  \<open>totalPoints\<close>, \<open>calculateDoneIndex\<close> returns the greatest index whose threshold is
  \<open>\<le> totalPoints\<close> (an index of the catalog whose goal qualifies, with no qualifying
  index above it), or null when no index qualifies; and it is monotone in
  \<open>totalPoints\<close>, null counting as below every index.
\<close>

theorem calculateDoneIndex_greatest_monotone:
  assumes "strictlyAscending (Config.goals cfg)"
  shows "(case calculateDoneIndex cfg pts of
            None \<Rightarrow> (\<forall>i<length (Config.goals cfg). \<not> js_le (points (Config.goals cfg ! i)) pts)
          | Some d \<Rightarrow>
              0 \<le> d \<and> d < int (length (Config.goals cfg))
              \<and> js_le (points (Config.goals cfg ! nat d)) pts
              \<and> (\<forall>i<length (Config.goals cfg).
                    js_le (points (Config.goals cfg ! i)) pts \<longrightarrow> int i \<le> d))
         \<and> (js_le pts1 pts2 \<longrightarrow>
              doneIndex_le (calculateDoneIndex cfg pts1) (calculateDoneIndex cfg pts2))"
proof (intro conjI impI)
  let ?gs = "Config.goals cfg"
  let ?P = "\<lambda>x. js_le (points x) pts"
  show "case calculateDoneIndex cfg pts of
            None \<Rightarrow> (\<forall>i<length ?gs. \<not> js_le (points (?gs ! i)) pts)
          | Some d \<Rightarrow>
              0 \<le> d \<and> d < int (length ?gs)
              \<and> js_le (points (?gs ! nat d)) pts
              \<and> (\<forall>i<length ?gs. js_le (points (?gs ! i)) pts \<longrightarrow> int i \<le> d)"
  proof (cases "findLastIndex_from ?P ?gs (length ?gs) < 0")
    case True
    then have "\<forall>i<length ?gs. \<not> ?P (?gs ! i)"
      by (simp only: findLastIndex_from_none)
    with True show ?thesis
      by (simp add: calculateDoneIndex_def findLastIndex_def)
  next
    case False
    then have nn: "0 \<le> findLastIndex_from ?P ?gs (length ?gs)" by simp
    have "findLastIndex_from ?P ?gs (length ?gs) < int (length ?gs)"
      using findLastIndex_from_bounds [of ?P ?gs "length ?gs"] by simp
    moreover have "?P (?gs ! nat (findLastIndex_from ?P ?gs (length ?gs)))"
      using nn by (rule findLastIndex_from_holds)
    moreover have "\<forall>i<length ?gs. ?P (?gs ! i) \<longrightarrow> int i \<le> findLastIndex_from ?P ?gs (length ?gs)"
      by (simp add: findLastIndex_from_greatest)
    ultimately show ?thesis using False nn
      by (simp add: calculateDoneIndex_def findLastIndex_def)
  qed
next
  assume le: "js_le pts1 pts2"
  have "findLastIndex_from (\<lambda>x. js_le (points x) pts1) (Config.goals cfg) (length (Config.goals cfg))
        \<le> findLastIndex_from (\<lambda>x. js_le (points x) pts2) (Config.goals cfg) (length (Config.goals cfg))"
    by (rule findLastIndex_from_mono) (rule js_le_trans [OF _ le])
  then show "doneIndex_le (calculateDoneIndex cfg pts1) (calculateDoneIndex cfg pts2)"
    by (simp add: doneIndex_le_def calculateDoneIndex_def findLastIndex_def Let_def)
qed

theorem calculateDoneIndex_greatest_monotone_witness:
  "strictlyAscending (Config.goals (catalogOf [100, 200, 300 :: int]))
   \<and> calculateDoneIndex (catalogOf [100, 200, 300 :: int]) (Num 250) = Some 1
   \<and> js_le (points (Config.goals (catalogOf [100, 200, 300 :: int]) ! nat 1)) (Num 250)
   \<and> doneIndex_le (calculateDoneIndex (catalogOf [100, 200, 300 :: int]) (Num 150))
        (calculateDoneIndex (catalogOf [100, 200, 300 :: int]) (Num 250))"
proof -
  have h: "strictlyAscending (Config.goals (catalogOf [100, 200, 300 :: int]))"
    by (simp add: strictlyAscending_def catalogOf_def)
  have c: "calculateDoneIndex (catalogOf [100, 200, 300 :: int]) (Num 250) = Some 1"
    by (simp add: calculateDoneIndex_def findLastIndex_def catalogOf_def numeral_3_eq_3)
  have l: "js_le (Num (150 :: int)) (Num 250)" by simp
  from calculateDoneIndex_greatest_monotone [OF h, of "Num 250" "Num 150" "Num 250"] h c l
  show ?thesis by simp
qed

section \<open>Properties of the state machine\<close>

lemmas scroller_defs =
  updateScrollerAnimation_def expireTimeout_def Let_def phase_def setAnimation_def
  armTimeout_def startAnimation_def nullish_def

lemmas catalog_defs =
  catalogOf_def calculateDoneIndex_def findLastIndex_def strictlyAscending_def
  initialModel_def initializeAnimation_def loadGoalsFromConfig_def setTotalPoints_def

text \<open>
  Claim C1. For a catalog of at least one goal with strictly increasing thresholds, from
  the phase static with done index null and no timer armed, with \<open>totalPoints\<close> held at
  a value whose target done index is 4, the successive calls of
  \<open>updateScrollerAnimation\<close> (each after the timer of the previous phase has expired)
  give exactly the phases upwards:begin(0), upwards:moving(0), upwards:end(0), static(0),
  upwards:begin(1), ..., static(4): the done index grows by one in each cycle of begin,
  moving and end, and no index is skipped.
\<close>

theorem upwards_one_goal_per_cycle:
  assumes "1 \<le> length (Config.goals cfg)"
    and "strictlyAscending (Config.goals cfg)"
    and "totalPoints model = Some tp"
    and "calculateDoneIndex cfg tp = Some 4"
    and "animation model = \<lparr>type = Static, doneIndex = None, activeTimeout = False\<rparr>"
  shows "phasesAfterCalls cfg 20 model =
    [(UpwardsBegin, Some 0), (UpwardsMoving, Some 0), (UpwardsEnd, Some 0), (Static, Some 0),
     (UpwardsBegin, Some 1), (UpwardsMoving, Some 1), (UpwardsEnd, Some 1), (Static, Some 1),
     (UpwardsBegin, Some 2), (UpwardsMoving, Some 2), (UpwardsEnd, Some 2), (Static, Some 2),
     (UpwardsBegin, Some 3), (UpwardsMoving, Some 3), (UpwardsEnd, Some 3), (Static, Some 3),
     (UpwardsBegin, Some 4), (UpwardsMoving, Some 4), (UpwardsEnd, Some 4), (Static, Some 4)]"
  using assms(3-5) by (simp add: eval_nat_numeral scroller_defs)

theorem upwards_one_goal_per_cycle_witness:
  "1 \<le> length (Config.goals (catalogOf [100, 200, 300, 400, 500, 600 :: int]))
   \<and> strictlyAscending (Config.goals (catalogOf [100, 200, 300, 400, 500, 600 :: int]))
   \<and> calculateDoneIndex (catalogOf [100, 200, 300, 400, 500, 600 :: int]) (Num 550) = Some 4
   \<and> animation (setTotalPoints (Some (Num 550))
         (initialModel (catalogOf [100, 200, 300, 400, 500, 600 :: int]) (Num 0)))
       = \<lparr>type = Static, doneIndex = None, activeTimeout = False\<rparr>
   \<and> phasesAfterCalls (catalogOf [100, 200, 300, 400, 500, 600 :: int]) 20
        (setTotalPoints (Some (Num 550))
          (initialModel (catalogOf [100, 200, 300, 400, 500, 600 :: int]) (Num 0))) =
    [(UpwardsBegin, Some 0), (UpwardsMoving, Some 0), (UpwardsEnd, Some 0), (Static, Some 0),
     (UpwardsBegin, Some 1), (UpwardsMoving, Some 1), (UpwardsEnd, Some 1), (Static, Some 1),
     (UpwardsBegin, Some 2), (UpwardsMoving, Some 2), (UpwardsEnd, Some 2), (Static, Some 2),
     (UpwardsBegin, Some 3), (UpwardsMoving, Some 3), (UpwardsEnd, Some 3), (Static, Some 3),
     (UpwardsBegin, Some 4), (UpwardsMoving, Some 4), (UpwardsEnd, Some 4), (Static, Some 4)]"
proof -
  let ?cfg = "catalogOf [100, 200, 300, 400, 500, 600 :: int]"
  let ?m = "setTotalPoints (Some (Num 550)) (initialModel ?cfg (Num 0))"
  have h1: "1 \<le> length (Config.goals ?cfg)" by (simp add: catalogOf_def)
  have h2: "strictlyAscending (Config.goals ?cfg)" by (simp add: catalog_defs)
  have h3: "totalPoints ?m = Some (Num 550)" by (simp add: setTotalPoints_def)
  have h4: "calculateDoneIndex ?cfg (Num 550) = Some 4" by (simp add: catalog_defs)
  have h5: "animation ?m = \<lparr>type = Static, doneIndex = None, activeTimeout = False\<rparr>"
    by (simp add: catalog_defs)
  from upwards_one_goal_per_cycle [OF h1 h2 h3 h4 h5] h1 h2 h4 h5 show ?thesis by simp
qed

text \<open>
  Claim C3. From the phase static(3) with a target done index that fell back to 1, the
  successive calls of \<open>updateScrollerAnimation\<close> (each after the timer has expired) give
  downwards:begin(3), downwards:moving(3), downwards:end(2), static(2) and then the same
  cycle once more down to static(1). In general the step taken in downwards:moving(d)
  leads to downwards:end(d'), where d' is null if d is null or 0, and d - 1 otherwise.
\<close>

theorem downwards_one_goal_per_cycle:
  assumes "totalPoints model = Some tp"
    and "calculateDoneIndex cfg tp = Some 1"
    and "animation model = \<lparr>type = Static, doneIndex = Some 3, activeTimeout = False\<rparr>"
  shows "phasesAfterCalls cfg 8 model =
    [(DownwardsBegin, Some 3), (DownwardsMoving, Some 3), (DownwardsEnd, Some 2), (Static, Some 2),
     (DownwardsBegin, Some 2), (DownwardsMoving, Some 2), (DownwardsEnd, Some 1), (Static, Some 1)]
    \<and> (\<forall>m d. type (animation m) = DownwardsMoving \<and> doneIndex (animation m) = d
           \<and> totalPoints m \<noteq> None \<longrightarrow>
         phase (updateScrollerAnimation cfg (expireTimeout m)) =
           (DownwardsEnd, if d = None \<or> d = Some 0 then None else Some (the d - 1)))"
  using assms by (auto simp add: eval_nat_numeral scroller_defs)

theorem downwards_one_goal_per_cycle_witness:
  "calculateDoneIndex (catalogOf [100, 200, 300, 400, 500, 600 :: int]) (Num 250) = Some 1
   \<and> phasesAfterCalls (catalogOf [100, 200, 300, 400, 500, 600 :: int]) 8
        \<lparr>totalPoints = Some (Num 250),
         goals = loadGoalsFromConfig (catalogOf [100, 200, 300, 400, 500, 600 :: int]),
         animation = \<lparr>type = Static, doneIndex = Some 3, activeTimeout = False\<rparr>\<rparr> =
    [(DownwardsBegin, Some 3), (DownwardsMoving, Some 3), (DownwardsEnd, Some 2), (Static, Some 2),
     (DownwardsBegin, Some 2), (DownwardsMoving, Some 2), (DownwardsEnd, Some 1), (Static, Some 1)]
   \<and> phase (updateScrollerAnimation (catalogOf [100, 200, 300, 400, 500, 600 :: int])
        (expireTimeout
          \<lparr>totalPoints = Some (Num 50),
           goals = loadGoalsFromConfig (catalogOf [100, 200, 300, 400, 500, 600 :: int]),
           animation = \<lparr>type = DownwardsMoving, doneIndex = Some 0, activeTimeout = True\<rparr>\<rparr>))
      = (DownwardsEnd, None)"
proof -
  let ?cfg = "catalogOf [100, 200, 300, 400, 500, 600 :: int]"
  let ?m = "\<lparr>totalPoints = Some (Num (250 :: int)), goals = loadGoalsFromConfig ?cfg,
             animation = \<lparr>type = Static, doneIndex = Some 3, activeTimeout = False\<rparr>\<rparr>"
  let ?m' = "\<lparr>totalPoints = Some (Num (50 :: int)), goals = loadGoalsFromConfig ?cfg,
             animation = \<lparr>type = DownwardsMoving, doneIndex = Some 0, activeTimeout = True\<rparr>\<rparr>"
  have h1: "totalPoints ?m = Some (Num 250)" by simp
  have h2: "calculateDoneIndex ?cfg (Num 250) = Some 1" by (simp add: catalog_defs)
  have h3: "animation ?m = \<lparr>type = Static, doneIndex = Some 3, activeTimeout = False\<rparr>" by simp
  note t = downwards_one_goal_per_cycle [OF h1 h2 h3]
  from t have a: "phasesAfterCalls ?cfg 8 ?m =
    [(DownwardsBegin, Some 3), (DownwardsMoving, Some 3), (DownwardsEnd, Some 2), (Static, Some 2),
     (DownwardsBegin, Some 2), (DownwardsMoving, Some 2), (DownwardsEnd, Some 1), (Static, Some 1)]"
    by (rule conjunct1)
  from t have "type (animation ?m') = DownwardsMoving \<and> doneIndex (animation ?m') = Some 0
           \<and> totalPoints ?m' \<noteq> None \<longrightarrow>
         phase (updateScrollerAnimation ?cfg (expireTimeout ?m')) =
           (DownwardsEnd, if Some (0::int) = None \<or> Some (0::int) = Some 0 then None
                          else Some (the (Some 0) - 1))"
    by blast
  then have b: "phase (updateScrollerAnimation ?cfg (expireTimeout ?m')) = (DownwardsEnd, None)"
    by simp
  from h2 a b show ?thesis by simp
qed

text \<open>
  Claim C4. While the timer of the current phase is armed, a call of
  \<open>updateScrollerAnimation\<close> changes nothing: the model after the call is the model
  before it, and the animation (tag, done index and armed flag) stays the same whatever
  value \<open>totalPoints\<close> has been given in the meantime.
\<close>

theorem armed_timer_noop:
  assumes "activeTimeout (animation model)"
  shows "updateScrollerAnimation cfg model = model
     \<and> animation (updateScrollerAnimation cfg (setTotalPoints tp model)) = animation model"
  using assms by (simp add: updateScrollerAnimation_def setTotalPoints_def)

theorem armed_timer_noop_witness:
  "activeTimeout (animation
      \<lparr>totalPoints = Some (Num (50 :: int)), goals = loadGoalsFromConfig (catalogOf [100, 200, 300]),
       animation = \<lparr>type = UpwardsMoving, doneIndex = Some 0, activeTimeout = True\<rparr>\<rparr>)
   \<and> animation (updateScrollerAnimation (catalogOf [100, 200, 300])
        (setTotalPoints (Some (Num 350))
          \<lparr>totalPoints = Some (Num (50 :: int)), goals = loadGoalsFromConfig (catalogOf [100, 200, 300]),
           animation = \<lparr>type = UpwardsMoving, doneIndex = Some 0, activeTimeout = True\<rparr>\<rparr>))
      = \<lparr>type = UpwardsMoving, doneIndex = Some 0, activeTimeout = True\<rparr>"
proof -
  let ?m = "\<lparr>totalPoints = Some (Num (50 :: int)), goals = loadGoalsFromConfig (catalogOf [100, 200, 300]),
       animation = \<lparr>type = UpwardsMoving, doneIndex = Some 0, activeTimeout = True\<rparr>\<rparr>"
  have h: "activeTimeout (animation ?m)" by simp
  from armed_timer_noop [OF h, of "catalogOf [100, 200, 300]" "Some (Num 350)"] h
  show ?thesis by simp
qed

lemma updateScrollerAnimation_null_total:
  "totalPoints model = None \<Longrightarrow> updateScrollerAnimation cfg model = model"
  by (simp add: updateScrollerAnimation_def)

lemma expireTimeout_keeps:
  "phase (expireTimeout model) = phase model"
  "totalPoints (expireTimeout model) = totalPoints model"
  by (simp_all add: phase_def expireTimeout_def)

text \<open>
  Claim C6. When \<open>totalPoints\<close> is null (a failed fetch), a call of
  \<open>updateScrollerAnimation\<close> returns the model as it was, so the phase (tag and done
  index) is unchanged; the same holds after any number \<open>n\<close> of consecutive calls, of
  timer callbacks, and of polls that fail again. The function is total: no call raises.
\<close>

theorem failed_fetch_keeps_phase:
  assumes "totalPoints model = None"
  shows "updateScrollerAnimation cfg model = model
     \<and> (updateScrollerAnimation cfg ^^ n) model = model
     \<and> phase ((timeoutCallback cfg ^^ n) model) = phase model
     \<and> phase ((fetchAndUpdate cfg None ^^ n) model) = phase model"
proof (intro conjI)
  show "updateScrollerAnimation cfg model = model"
    using assms by (rule updateScrollerAnimation_null_total)
  show "(updateScrollerAnimation cfg ^^ n) model = model"
    by (induction n) (simp_all add: updateScrollerAnimation_null_total assms)
  have "phase ((timeoutCallback cfg ^^ n) model) = phase model
        \<and> totalPoints ((timeoutCallback cfg ^^ n) model) = None"
    by (induction n)
       (simp_all add: assms timeoutCallback_def renderGoals_def
          updateScrollerAnimation_null_total expireTimeout_keeps)
  then show "phase ((timeoutCallback cfg ^^ n) model) = phase model" ..
  show "phase ((fetchAndUpdate cfg None ^^ n) model) = phase model"
    by (induction n)
       (simp_all add: assms fetchAndUpdate_def render_def renderGoals_def
          updateScrollerAnimation_null_total setTotalPoints_def phase_def)
qed

theorem failed_fetch_keeps_phase_witness:
  "totalPoints (setTotalPoints None
      \<lparr>totalPoints = Some (Num (250 :: int)), goals = loadGoalsFromConfig (catalogOf [100, 200, 300]),
       animation = \<lparr>type = UpwardsBegin, doneIndex = Some 0, activeTimeout = True\<rparr>\<rparr>) = None
   \<and> phase ((timeoutCallback (catalogOf [100, 200, 300]) ^^ 3) (setTotalPoints None
      \<lparr>totalPoints = Some (Num (250 :: int)), goals = loadGoalsFromConfig (catalogOf [100, 200, 300]),
       animation = \<lparr>type = UpwardsBegin, doneIndex = Some 0, activeTimeout = True\<rparr>\<rparr>))
     = (UpwardsBegin, Some 0)
   \<and> phase ((fetchAndUpdate (catalogOf [100, 200, 300]) None ^^ 3) (setTotalPoints None
      \<lparr>totalPoints = Some (Num (250 :: int)), goals = loadGoalsFromConfig (catalogOf [100, 200, 300]),
       animation = \<lparr>type = UpwardsBegin, doneIndex = Some 0, activeTimeout = True\<rparr>\<rparr>))
     = (UpwardsBegin, Some 0)"
proof -
  let ?m = "setTotalPoints None
      \<lparr>totalPoints = Some (Num (250 :: int)), goals = loadGoalsFromConfig (catalogOf [100, 200, 300]),
       animation = \<lparr>type = UpwardsBegin, doneIndex = Some 0, activeTimeout = True\<rparr>\<rparr>"
  have h: "totalPoints ?m = None" by (simp add: setTotalPoints_def)
  have p: "phase ?m = (UpwardsBegin, Some 0)" by (simp add: setTotalPoints_def phase_def)
  from failed_fetch_keeps_phase [OF h, of "catalogOf [100, 200, 300]" 3] h p
  show ?thesis by simp
qed

text \<open>
  Claim C5, as the code has it. After a call of \<open>updateScrollerAnimation\<close> made with no
  timer armed, the timer is armed if and only if \<open>totalPoints\<close> is a number and the new
  phase either is not static or is static with a done index that differs from the target
  done index \<open>calculateDoneIndex(totalPoints)\<close>. So a new phase that is not static has
  its timer armed whenever \<open>totalPoints\<close> is a number, and the static phase that follows
  an end phase is armed as well while the target is not reached.
\<close>

theorem timer_armed_iff:
  assumes "\<not> activeTimeout (animation model)"
  shows "activeTimeout (animation (updateScrollerAnimation cfg model)) \<longleftrightarrow>
     (case totalPoints model of
        None \<Rightarrow> False
      | Some tp \<Rightarrow> type (animation (updateScrollerAnimation cfg model)) \<noteq> Static
          \<or> doneIndex (animation (updateScrollerAnimation cfg model)) \<noteq> calculateDoneIndex cfg tp)"
  using assms
  by (auto simp add: updateScrollerAnimation_def Let_def setAnimation_def armTimeout_def
      startAnimation_def split: option.splits AnimationType.splits)

theorem timer_armed_iff_witness:
  "\<not> activeTimeout (animation
      \<lparr>totalPoints = Some (Num (250 :: int)), goals = loadGoalsFromConfig (catalogOf [100, 200]),
       animation = \<lparr>type = DownwardsEnd, doneIndex = Some 1, activeTimeout = False\<rparr>\<rparr>)
   \<and> calculateDoneIndex (catalogOf [100, 200 :: int]) (Num 250) = Some 1
   \<and> animation (updateScrollerAnimation (catalogOf [100, 200])
      \<lparr>totalPoints = Some (Num (250 :: int)), goals = loadGoalsFromConfig (catalogOf [100, 200]),
       animation = \<lparr>type = DownwardsEnd, doneIndex = Some 1, activeTimeout = False\<rparr>\<rparr>)
     = \<lparr>type = Static, doneIndex = Some 1, activeTimeout = False\<rparr>"
proof -
  let ?cfg = "catalogOf [100, 200 :: int]"
  let ?m = "\<lparr>totalPoints = Some (Num (250 :: int)), goals = loadGoalsFromConfig ?cfg,
       animation = \<lparr>type = DownwardsEnd, doneIndex = Some 1, activeTimeout = False\<rparr>\<rparr>"
  have h: "\<not> activeTimeout (animation ?m)" by simp
  have c: "calculateDoneIndex ?cfg (Num 250) = Some 1" by (simp add: catalog_defs)
  have t: "type (animation (updateScrollerAnimation ?cfg ?m)) = Static"
    and d: "doneIndex (animation (updateScrollerAnimation ?cfg ?m)) = Some 1"
    by (simp_all add: scroller_defs c)
  from timer_armed_iff [OF h, of ?cfg] have "\<not> activeTimeout (animation (updateScrollerAnimation ?cfg ?m))"
    by (simp add: c t d)
  with t d have "animation (updateScrollerAnimation ?cfg ?m)
     = \<lparr>type = Static, doneIndex = Some 1, activeTimeout = False\<rparr>"
    by (cases "animation (updateScrollerAnimation ?cfg ?m)") simp
  with h c show ?thesis by simp
qed

text \<open>
  The claim as the specification words it fails in both directions. With the catalog
  \<open>[100, 200]\<close> and \<open>totalPoints = 250\<close>, the page reaches upwards:end(0) with its
  timer expired; the next call gives static(0) and arms the timer, since the target is 1.
  And with \<open>totalPoints\<close> null and the phase upwards:begin(0) with its timer expired,
  the call arms nothing although the phase is not static.
\<close>

theorem timer_armed_iff_not_static_counterexample:
  "reachable (catalogOf [100, 200 :: int]) (Num 0)
     (updateScrollerAnimation (catalogOf [100, 200])
       (expireTimeout (updateScrollerAnimation (catalogOf [100, 200])
         (expireTimeout (updateScrollerAnimation (catalogOf [100, 200])
           (expireTimeout (updateScrollerAnimation (catalogOf [100, 200])
             (setTotalPoints (Some (Num 250)) (initialModel (catalogOf [100, 200]) (Num 0))))))))))
   \<and> animation
     (updateScrollerAnimation (catalogOf [100, 200 :: int])
       (expireTimeout (updateScrollerAnimation (catalogOf [100, 200])
         (expireTimeout (updateScrollerAnimation (catalogOf [100, 200])
           (expireTimeout (updateScrollerAnimation (catalogOf [100, 200])
             (setTotalPoints (Some (Num 250)) (initialModel (catalogOf [100, 200]) (Num 0))))))))))
     = \<lparr>type = Static, doneIndex = Some 0, activeTimeout = True\<rparr>
   \<and> animation
     (updateScrollerAnimation (catalogOf [100, 200 :: int])
       \<lparr>totalPoints = None, goals = loadGoalsFromConfig (catalogOf [100, 200]),
        animation = \<lparr>type = UpwardsBegin, doneIndex = Some 0, activeTimeout = False\<rparr>\<rparr>)
     = \<lparr>type = UpwardsBegin, doneIndex = Some 0, activeTimeout = False\<rparr>"
proof (intro conjI)
  let ?cfg = "catalogOf [100, 200 :: int]"
  let ?m0 = "setTotalPoints (Some (Num 250)) (initialModel ?cfg (Num 0))"
  let ?m1 = "updateScrollerAnimation ?cfg ?m0"
  let ?m2 = "updateScrollerAnimation ?cfg (expireTimeout ?m1)"
  let ?m3 = "updateScrollerAnimation ?cfg (expireTimeout ?m2)"
  let ?m4 = "updateScrollerAnimation ?cfg (expireTimeout ?m3)"
  have c: "calculateDoneIndex ?cfg (Num 250) = Some 1" "calculateDoneIndex ?cfg (Num 0) = None"
    by (simp_all add: catalog_defs)
  have a0: "animation ?m0 = \<lparr>type = Static, doneIndex = None, activeTimeout = False\<rparr>"
    and t0: "totalPoints ?m0 = Some (Num 250)"
    by (simp_all add: initialModel_def initializeAnimation_def setTotalPoints_def c)
  have a1: "animation ?m1 = \<lparr>type = UpwardsBegin, doneIndex = Some 0, activeTimeout = True\<rparr>"
    by (simp add: scroller_defs a0 t0 c)
  have a2: "animation ?m2 = \<lparr>type = UpwardsMoving, doneIndex = Some 0, activeTimeout = True\<rparr>"
    by (simp add: scroller_defs a0 t0 c)
  have a3: "animation ?m3 = \<lparr>type = UpwardsEnd, doneIndex = Some 0, activeTimeout = True\<rparr>"
    by (simp add: scroller_defs a0 t0 c)
  show "animation ?m4 = \<lparr>type = Static, doneIndex = Some 0, activeTimeout = True\<rparr>"
    by (simp add: scroller_defs a0 t0 c)
  have "reachable ?cfg (Num 0) ?m0"
    by (intro reachable_total reachable_init)
  then have "reachable ?cfg (Num 0) ?m1" by (rule reachable_update)
  then have "reachable ?cfg (Num 0) (expireTimeout ?m1)"
    by (rule reachable_expire) (simp add: a1)
  then have "reachable ?cfg (Num 0) ?m2" by (rule reachable_update)
  then have "reachable ?cfg (Num 0) (expireTimeout ?m2)"
    by (rule reachable_expire) (simp add: a2)
  then have "reachable ?cfg (Num 0) ?m3" by (rule reachable_update)
  then have "reachable ?cfg (Num 0) (expireTimeout ?m3)"
    by (rule reachable_expire) (simp add: a3)
  then show "reachable ?cfg (Num 0) ?m4" by (rule reachable_update)
  show "animation
     (updateScrollerAnimation ?cfg
       \<lparr>totalPoints = None, goals = loadGoalsFromConfig ?cfg,
        animation = \<lparr>type = UpwardsBegin, doneIndex = Some 0, activeTimeout = False\<rparr>\<rparr>)
     = \<lparr>type = UpwardsBegin, doneIndex = Some 0, activeTimeout = False\<rparr>"
    by (simp add: updateScrollerAnimation_def)
qed

lemma updateScrollerAnimation_doneIndex_ok:
  assumes "doneIndex_ok cfg (animation model)"
  shows "doneIndex_ok cfg (animation (updateScrollerAnimation cfg model))"
proof (cases "activeTimeout (animation model)")
  case True
  then show ?thesis using assms by (simp add: updateScrollerAnimation_def)
next
  case False
  show ?thesis
  proof (cases "totalPoints model")
    case None
    then show ?thesis using assms by (simp add: updateScrollerAnimation_def)
  next
    case (Some tp)
    have r: "\<And>t. calculateDoneIndex cfg tp = Some t \<Longrightarrow> 0 \<le> t \<and> t < int (length (Config.goals cfg))"
      by (rule calculateDoneIndex_range)
    show ?thesis using assms False Some r
      by (cases "calculateDoneIndex cfg tp"; cases "doneIndex (animation model)")
         (auto simp add: updateScrollerAnimation_def Let_def setAnimation_def armTimeout_def
          startAnimation_def doneIndex_ok_def nullish_def split: AnimationType.splits)
  qed
qed

text \<open>
  Claim C10. For a catalog of \<open>N \<ge> 1\<close> goals, in every model reachable from the initial
  phase static(calculateDoneIndex(initialPoints)) the done index of the phase is null or
  an integer from \<open>0\<close> to \<open>N - 1\<close>: the step into upwards:begin never gives \<open>N\<close> or
  more, and the downward steps never give a negative index.
\<close>

theorem reachable_doneIndex_in_range:
  assumes "1 \<le> length (Config.goals cfg)"
    and "reachable cfg initialPoints model"
  shows "case doneIndex (animation model) of
           None \<Rightarrow> True
         | Some d \<Rightarrow> 0 \<le> d \<and> d \<le> int (length (Config.goals cfg)) - 1"
proof -
  from assms(2) have "doneIndex_ok cfg (animation model)"
  proof (induction rule: reachable.induct)
    case reachable_init
    show ?case using calculateDoneIndex_range [of cfg initialPoints]
      by (auto simp: doneIndex_ok_def initialModel_def initializeAnimation_def split: option.splits)
  next
    case (reachable_total model tp)
    then show ?case by (simp add: setTotalPoints_def)
  next
    case (reachable_update model)
    from reachable_update.IH show ?case by (rule updateScrollerAnimation_doneIndex_ok)
  next
    case (reachable_expire model)
    then show ?case by (simp add: expireTimeout_def doneIndex_ok_def)
  qed
  then show ?thesis by (auto simp: doneIndex_ok_def split: option.splits)
qed

theorem reachable_doneIndex_in_range_witness:
  "1 \<le> length (Config.goals (catalogOf [100, 200 :: int]))
   \<and> reachable (catalogOf [100, 200 :: int]) (Num 0)
       (updateScrollerAnimation (catalogOf [100, 200])
         (setTotalPoints (Some (Num 250)) (initialModel (catalogOf [100, 200]) (Num 0))))
   \<and> doneIndex (animation (updateScrollerAnimation (catalogOf [100, 200 :: int])
         (setTotalPoints (Some (Num 250)) (initialModel (catalogOf [100, 200]) (Num 0))))) = Some 0
   \<and> (0 :: int) \<le> int (length (Config.goals (catalogOf [100, 200 :: int]))) - 1"
proof -
  let ?cfg = "catalogOf [100, 200 :: int]"
  let ?m = "updateScrollerAnimation ?cfg (setTotalPoints (Some (Num 250)) (initialModel ?cfg (Num 0)))"
  have h1: "1 \<le> length (Config.goals ?cfg)" by (simp add: catalogOf_def)
  have h2: "reachable ?cfg (Num 0) ?m"
    by (intro reachable_update reachable_total reachable_init)
  have d: "doneIndex (animation ?m) = Some 0"
    by (simp add: scroller_defs catalog_defs)
  from reachable_doneIndex_in_range [OF h1 h2] h1 h2 d show ?thesis by simp
qed

section \<open>Properties of the slot projector\<close>

lemmas projector_defs =
  determineGoalInfo_def remainingOf_def levelsOf_def elementAnimationOf_def pickerOf_def
  positionOffsetOf_def levelOr_def truthy_def nullish_def Let_def

text \<open>
  Claim C7. Whenever \<open>remaining = goalCount - (doneIndex ?? 0)\<close> is 1, every slot that
  \<open>determineGoalInfo\<close> returns, for any index and any phase tag, has the state
  completed.
\<close>

theorem last_goal_all_completed:
  assumes "int (length (goals model)) - nullish (doneIndex (animation model)) 0 = 1"
    and "determineGoalInfo model index goal = Some info"
  shows "state info = Completed"
proof -
  have r: "remainingOf model = 1" using assms(1) by (simp add: remainingOf_def)
  have l: "levelsOf model = Some [Completed, Completed, Completed, Completed]"
    by (simp add: levelsOf_def r)
  have lv: "levelOr (levelsOf model) i d = Completed" if "0 \<le> i" "i < 4" for i d
  proof -
    from that have "i = 0 \<or> i = 1 \<or> i = 2 \<or> i = 3" by arith
    then show ?thesis by (auto simp: levelOr_def l)
  qed
  from assms(2) show ?thesis
    by (cases "type (animation model)")
       (auto simp add: determineGoalInfo_def Let_def r lv split: if_splits)
qed

theorem last_goal_all_completed_witness:
  "int (length (goals
      \<lparr>totalPoints = Some (Num (300 :: int)), goals = loadGoalsFromConfig (catalogOf [100, 200, 300]),
       animation = \<lparr>type = Static, doneIndex = Some 2, activeTimeout = False\<rparr>\<rparr>))
     - nullish (Some 2) 0 = 1
   \<and> determineGoalInfo
      \<lparr>totalPoints = Some (Num (300 :: int)), goals = loadGoalsFromConfig (catalogOf [100, 200, 300]),
       animation = \<lparr>type = Static, doneIndex = Some 2, activeTimeout = False\<rparr>\<rparr>
      2 \<lparr>config = \<lparr>points = Num 300, goal_text = [], subtext = None\<rparr>\<rparr>
     = Some \<lparr>state = Completed, position = 2, animation = Some Clear\<rparr>
   \<and> state \<lparr>state = Completed, position = 2, animation = Some Clear\<rparr> = Completed"
proof -
  let ?m = "\<lparr>totalPoints = Some (Num (300 :: int)), goals = loadGoalsFromConfig (catalogOf [100, 200, 300]),
       animation = \<lparr>type = Static, doneIndex = Some 2, activeTimeout = False\<rparr>\<rparr>"
  let ?g = "\<lparr>config = \<lparr>points = Num (300 :: int), goal_text = [], subtext = None\<rparr>\<rparr>"
  have h1: "int (length (goals ?m)) - nullish (doneIndex (animation ?m)) 0 = 1"
    by (simp add: loadGoalsFromConfig_def catalogOf_def nullish_def)
  have h2: "determineGoalInfo ?m 2 ?g = Some \<lparr>state = Completed, position = 2, animation = Some Clear\<rparr>"
    by (simp add: projector_defs loadGoalsFromConfig_def catalogOf_def)
  from last_goal_all_completed [OF h1 h2] h1 h2 show ?thesis by simp
qed

text \<open>
  Claim C8, as the code has it. In upwards:begin every slot that is shown, the edge slot
  included, gets no transition tag. In downwards:begin the edge (covered) slot, the one
  with \<open>picker = -1\<close>, gets no-box-shadow, and every other slot that is shown gets
  down when the done index is neither null nor 0 and \<open>remaining > 2\<close>, and no tag
  otherwise.
\<close>

theorem begin_phase_tags:
  assumes "determineGoalInfo model index goal = Some info"
  shows "(type (animation model) = UpwardsBegin \<longrightarrow> GoalInfo.animation info = None)
     \<and> (type (animation model) = DownwardsBegin \<longrightarrow>
          GoalInfo.animation info =
            (if pickerOf model index = - 1 then Some NoBoxShadow
             else if doneIndex (animation model) \<noteq> None \<and> doneIndex (animation model) \<noteq> Some 0
                     \<and> remainingOf model > 2
                  then Some Down else None))"
  using assms
  by (cases "doneIndex (animation model)")
     (auto simp add: determineGoalInfo_def elementAnimationOf_def truthy_def Let_def split: if_splits)

theorem begin_phase_tags_witness:
  "determineGoalInfo
      \<lparr>totalPoints = Some (Num (150 :: int)),
       goals = loadGoalsFromConfig (catalogOf [100, 200, 300, 400, 500]),
       animation = \<lparr>type = DownwardsBegin, doneIndex = Some 1, activeTimeout = True\<rparr>\<rparr>
      0 \<lparr>config = \<lparr>points = Num 100, goal_text = [], subtext = None\<rparr>\<rparr>
     = Some \<lparr>state = Completed, position = 0, animation = Some NoBoxShadow\<rparr>
   \<and> pickerOf
      \<lparr>totalPoints = Some (Num (150 :: int)),
       goals = loadGoalsFromConfig (catalogOf [100, 200, 300, 400, 500]),
       animation = \<lparr>type = DownwardsBegin, doneIndex = Some 1, activeTimeout = True\<rparr>\<rparr> 0 = - 1
   \<and> GoalInfo.animation \<lparr>state = Completed, position = 0, animation = Some NoBoxShadow\<rparr>
       = Some NoBoxShadow"
proof -
  let ?m = "\<lparr>totalPoints = Some (Num (150 :: int)),
       goals = loadGoalsFromConfig (catalogOf [100, 200, 300, 400, 500]),
       animation = \<lparr>type = DownwardsBegin, doneIndex = Some 1, activeTimeout = True\<rparr>\<rparr>"
  let ?g = "\<lparr>config = \<lparr>points = Num (100 :: int), goal_text = [], subtext = None\<rparr>\<rparr>"
  have h: "determineGoalInfo ?m 0 ?g
     = Some \<lparr>state = Completed, position = 0, animation = Some NoBoxShadow\<rparr>"
    by (simp add: projector_defs loadGoalsFromConfig_def catalogOf_def)
  have p: "pickerOf ?m 0 = - 1"
    by (simp add: projector_defs loadGoalsFromConfig_def catalogOf_def)
  from begin_phase_tags [OF h] h p show ?thesis by simp
qed

text \<open>
  The claim as the specification words it fails for both begin phases. With five goals
  and the done index 1, in upwards:begin the edge slot (index 0, \<open>picker = -1\<close>) is
  shown with no tag rather than no-box-shadow; and in downwards:begin the slot at
  index 1 (\<open>picker = 0\<close>), which is not the edge slot, is tagged down.
\<close>

theorem begin_phase_tags_counterexample:
  "pickerOf
      \<lparr>totalPoints = Some (Num (250 :: int)),
       goals = loadGoalsFromConfig (catalogOf [100, 200, 300, 400, 500]),
       animation = \<lparr>type = UpwardsBegin, doneIndex = Some 1, activeTimeout = True\<rparr>\<rparr> 0 = - 1
   \<and> determineGoalInfo
      \<lparr>totalPoints = Some (Num (250 :: int)),
       goals = loadGoalsFromConfig (catalogOf [100, 200, 300, 400, 500]),
       animation = \<lparr>type = UpwardsBegin, doneIndex = Some 1, activeTimeout = True\<rparr>\<rparr>
      0 \<lparr>config = \<lparr>points = Num 100, goal_text = [], subtext = None\<rparr>\<rparr>
     = Some \<lparr>state = Completed, position = 0, animation = None\<rparr>
   \<and> pickerOf
      \<lparr>totalPoints = Some (Num (150 :: int)),
       goals = loadGoalsFromConfig (catalogOf [100, 200, 300, 400, 500]),
       animation = \<lparr>type = DownwardsBegin, doneIndex = Some 1, activeTimeout = True\<rparr>\<rparr> 1 = 0
   \<and> determineGoalInfo
      \<lparr>totalPoints = Some (Num (150 :: int)),
       goals = loadGoalsFromConfig (catalogOf [100, 200, 300, 400, 500]),
       animation = \<lparr>type = DownwardsBegin, doneIndex = Some 1, activeTimeout = True\<rparr>\<rparr>
      1 \<lparr>config = \<lparr>points = Num 200, goal_text = [], subtext = None\<rparr>\<rparr>
     = Some \<lparr>state = Completed, position = 1, animation = Some Down\<rparr>"
  by (simp add: projector_defs loadGoalsFromConfig_def catalogOf_def)

section \<open>Properties of the start-up\<close>

text \<open>
  Claim C9. If the \<open>key\<close> query parameter is absent, empty, or has a length other than
  43 or 44, the state loader yields no fetch function, and \<open>main\<close> shows the text
  "Invalid key" and returns with nothing fetched from the data source and no polling
  interval installed.
\<close>

theorem invalid_key_stops:
  assumes "case base64 of None \<Rightarrow> True | Some b \<Rightarrow> b = [] \<or> (length b \<noteq> 43 \<and> length b \<noteq> 44)"
  shows "createStateLoader importKey decrypt cfg base64 = Inr None
     \<and> main importKey decrypt counterText isDevelopment cfg base64 =
         Inr \<lparr>counterValue_innerText = ''Invalid key'', fetched = [], pollInterval = None\<rparr>"
  using assms
  by (auto simp add: main_def createStateLoader_def tryLoadKeyFromSearch_def split: option.splits)

theorem invalid_key_stops_witness:
  "length ''too-short-key'' \<noteq> 43 \<and> length ''too-short-key'' \<noteq> 44
   \<and> main (\<lambda>b. Inr b :: unit + string) (\<lambda>enc key. Inr ''https://bucket.example/points.json'')
        (\<lambda>url. ''0'') False (catalogOf [100, 200, 300 :: int]) (Some ''too-short-key'')
      = Inr \<lparr>counterValue_innerText = ''Invalid key'', fetched = [], pollInterval = None\<rparr>"
proof -
  have h: "case Some ''too-short-key'' of None \<Rightarrow> True
           | Some b \<Rightarrow> b = [] \<or> (length b \<noteq> 43 \<and> length b \<noteq> 44)"
    by simp
  from invalid_key_stops [OF h, of "\<lambda>b. Inr b :: unit + string"
      "\<lambda>enc key. Inr ''https://bucket.example/points.json''" "catalogOf [100, 200, 300 :: int]"
      "\<lambda>url. ''0''" False]
  show ?thesis by simp
qed

end
